theory Spec2Isabelle
  imports Main
begin

section \<open>Canonical message model (internal/models/whatsapp.go)\<close>

text \<open>
  The Go model declares three string-typed enumerations through constants; they are
  datatypes here.  Nullable pointer fields (\<^verbatim>\<open>*string\<close>, \<^verbatim>\<open>*uuid.UUID\<close>) are options.
  A \<^verbatim>\<open>time.Time\<close> is an abstract instant (an integer), and a \<^verbatim>\<open>uuid.UUID\<close> is
  represented by its canonical text, which is what \<^verbatim>\<open>%s\<close> formatting prints.
  Go strings are byte sequences, as HOL strings are.
\<close>

datatype MessageDirection = MessageDirectionInbound | MessageDirectionOutbound

datatype MessageStatus =
    MessageStatusPending
  | MessageStatusSent
  | MessageStatusDelivered
  | MessageStatusRead
  | MessageStatusFailed

datatype MessageType =
    MessageTypeText
  | MessageTypeImage
  | MessageTypeDocument
  | MessageTypeAudio
  | MessageTypeVideo
  | MessageTypeLocation
  | MessageTypeContact

type_synonym time = int

type_synonym uuid = string

record WhatsAppMessage =
  ID :: uuid
  TwilioSID :: string
  From :: string
  To :: string
  Direction :: MessageDirection
  Type :: MessageType
  Status :: MessageStatus
  Content :: string
  MediaURL :: "string option"
  MediaType :: "string option"
  Timestamp :: time
  CreatedAt :: time
  UpdatedAt :: time
  UserID :: "uuid option"
  SessionID :: "uuid option"
  ErrorCode :: "string option"
  ErrorMsg :: "string option"

record TwilioWebhookRequest =
  MessageSid :: string
  AccountSid :: string
  MessagingServiceSid :: string
  From :: string
  To :: string
  Body :: string
  NumMedia :: string
  MediaContentType0 :: string
  MediaUrl0 :: string
  Timestamp :: string
  ApiVersion :: string
  SmsStatus :: string
  SmsSid :: string
  SmsMessageSid :: string
  ErrorCode :: string
  ErrorMessage :: string
  ProfileName :: string
  WaId :: string

record MessageStatusUpdate =
  MessageSid :: string
  Status :: MessageStatus
  ErrorCode :: "string option"
  ErrorMessage :: "string option"
  Timestamp :: time

section \<open>The Go standard library functions the services call\<close>

text \<open>
  \<^verbatim>\<open>strings.HasPrefix(s, prefix)\<close> is
  \<^verbatim>\<open>len(s) >= len(prefix) && s[:len(prefix)] == prefix\<close>.
\<close>

definition strings_HasPrefix :: "string \<Rightarrow> string \<Rightarrow> bool" where
  "strings_HasPrefix s p = (length p \<le> length s \<and> take (length p) s = p)"

text \<open>
  \<^verbatim>\<open>strings.ReplaceAll(s, old, new)\<close> for a pattern \<^verbatim>\<open>old\<close> of one ASCII byte, the only
  way the service calls it: every occurrence of the byte is replaced.  (An ASCII byte
  never occurs inside a multi-byte UTF-8 sequence, so the byte-wise reading is exact.)
\<close>

definition strings_ReplaceAll :: "string \<Rightarrow> char \<Rightarrow> string \<Rightarrow> string" where
  "strings_ReplaceAll s old new = concat (map (\<lambda>c. if c = old then new else [c]) s)"

text \<open>
  \<^verbatim>\<open>strings.ToLower\<close> consults the Unicode case tables, which are not part of the
  repository: the functions that call it take it as the parameter \<open>toLower\<close>.
  \<open>ascii_ToLower\<close> is its restriction to ASCII input, used for concrete evaluation.
\<close>

definition ascii_ToLower :: "string \<Rightarrow> string" where
  "ascii_ToLower s =
     map (\<lambda>c. if 65 \<le> (of_char c :: nat) \<and> (of_char c :: nat) \<le> 90
               then char_of ((of_char c :: nat) + 32) else c) s"

section \<open>Helper methods of the WhatsApp service (internal/services/whatsapp.go)\<close>

definition formatWhatsAppNumber :: "string \<Rightarrow> string" where
  "formatWhatsAppNumber phoneNumber =
     (if strings_HasPrefix phoneNumber ''whatsapp:'' then phoneNumber
      else
        let cleaned = strings_ReplaceAll phoneNumber (CHR '' '') '''';
            cleaned = strings_ReplaceAll cleaned (CHR ''-'') '''';
            cleaned = strings_ReplaceAll cleaned (CHR ''('') '''';
            cleaned = strings_ReplaceAll cleaned (CHR '')'') '''';
            cleaned = (if \<not> strings_HasPrefix cleaned ''+'' then ''+'' @ cleaned else cleaned)
        in ''whatsapp:'' @ cleaned)"

definition determineMessageType :: "string \<Rightarrow> MessageType" where
  "determineMessageType contentType =
     (if strings_HasPrefix contentType ''image/'' then MessageTypeImage
      else if strings_HasPrefix contentType ''video/'' then MessageTypeVideo
      else if strings_HasPrefix contentType ''audio/'' then MessageTypeAudio
      else if strings_HasPrefix contentType ''application/pdf'' then MessageTypeDocument
      else if strings_HasPrefix contentType ''application/'' then MessageTypeDocument
      else MessageTypeText)"

definition mapTwilioStatus :: "(string \<Rightarrow> string) \<Rightarrow> string \<Rightarrow> MessageStatus" where
  "mapTwilioStatus toLower twilioStatus =
     (let l = toLower twilioStatus in
      if l = ''queued'' \<or> l = ''accepted'' then MessageStatusPending
      else if l = ''sent'' then MessageStatusSent
      else if l = ''delivered'' then MessageStatusDelivered
      else if l = ''read'' then MessageStatusRead
      else if l = ''failed'' \<or> l = ''undelivered'' then MessageStatusFailed
      else MessageStatusPending)"

text \<open>
  \<^verbatim>\<open>strconv.Atoi\<close> on a platform with 64-bit \<^verbatim>\<open>int\<close>: an optional sign, then at least
  one decimal digit and nothing else; a value outside the \<^verbatim>\<open>int\<close> range is an error.
  \<open>None\<close> stands for a non-nil \<^verbatim>\<open>err\<close>.
\<close>

definition isDigit :: "char \<Rightarrow> bool" where
  "isDigit c = (48 \<le> (of_char c :: nat) \<and> (of_char c :: nat) \<le> 57)"

definition digitsValue :: "string \<Rightarrow> nat" where
  "digitsValue ds = foldl (\<lambda>n c. n * 10 + ((of_char c :: nat) - 48)) 0 ds"

definition strconv_Atoi :: "string \<Rightarrow> int option" where
  "strconv_Atoi s =
     (case s of
        [] \<Rightarrow> None
      | c # cs \<Rightarrow>
          let ds = (if c = CHR ''-'' \<or> c = CHR ''+'' then cs else s) in
          if ds = [] \<or> \<not> list_all isDigit ds then None
          else
            let n = int (digitsValue ds);
                v = (if c = CHR ''-'' then - n else n)
            in if v < - (2 ^ 63) \<or> 2 ^ 63 - 1 < v then None else Some v)"

text \<open>
  \<^verbatim>\<open>hex.EncodeToString\<close>: two characters of the table per byte, high nibble first.
\<close>

definition hextable :: string where
  "hextable = ''0123456789abcdef''"

definition hex_EncodeToString :: "string \<Rightarrow> string" where
  "hex_EncodeToString src =
     concat (map (\<lambda>v. [hextable ! ((of_char v :: nat) div 16),
                          hextable ! ((of_char v :: nat) mod 16)]) src)"

section \<open>What the outside world supplies during one call\<close>

text \<open>
  Library functions whose code is outside the repository, the clock, the random UUID
  source and the outcome of each database round trip are inputs of the model.
  \<open>timeNow env k\<close> is the \<open>k\<close>-th reading of \<^verbatim>\<open>time.Now()\<close> inside the call.
  \<open>dbErr\<close> says that the database rejects or fails the statement for a reason outside the
  modelled table (connection loss, timeout, a column constraint).
\<close>

record env =
  toLower :: "string \<Rightarrow> string"
  parseRFC3339 :: "string \<Rightarrow> time option"
  uuidParse :: "string \<Rightarrow> uuid option"
  uuidNew :: uuid
  timeNow :: "nat \<Rightarrow> time"
  dbErr :: bool

section \<open>Inbound normalisation (internal/services/whatsapp.go)\<close>

datatype error =
    FailedToStoreMessage
  | InvalidMessageIDFormat
  | FailedToRetrieveMessage
  | FailedToUpdateMessageStatus
  | MessageNotFoundForStatusUpdate

text \<open>
  Both functions return \<^verbatim>\<open>(value, nil)\<close> on every path; the result type keeps the error
  component because the handlers test it.
\<close>

definition ProcessIncomingMessage :: "env \<Rightarrow> TwilioWebhookRequest \<Rightarrow> error + WhatsAppMessage" where
  "ProcessIncomingMessage e webhookData =
     (let hasMedia =
            (case strconv_Atoi (NumMedia webhookData) of
               None \<Rightarrow> False
             | Some numMedia \<Rightarrow> 0 < numMedia \<and> MediaUrl0 webhookData \<noteq> []);
          mediaURL = (if hasMedia then Some (MediaUrl0 webhookData) else None);
          mediaType = (if hasMedia then Some (MediaContentType0 webhookData) else None);
          messageType =
            (if hasMedia then determineMessageType (MediaContentType0 webhookData)
             else MessageTypeText);
          timestamp =
            (if TwilioWebhookRequest.Timestamp webhookData \<noteq> [] then
               (case parseRFC3339 e (TwilioWebhookRequest.Timestamp webhookData) of
                  Some parsed \<Rightarrow> parsed
                | None \<Rightarrow> timeNow e 0)
             else timeNow e 0)
      in Inr \<lparr> ID = uuidNew e,
               TwilioSID = TwilioWebhookRequest.MessageSid webhookData,
               From = TwilioWebhookRequest.From webhookData,
               To = TwilioWebhookRequest.To webhookData,
               Direction = MessageDirectionInbound,
               Type = messageType,
               Status = MessageStatusDelivered,
               Content = Body webhookData,
               MediaURL = mediaURL,
               MediaType = mediaType,
               Timestamp = timestamp,
               CreatedAt = timeNow e 1,
               UpdatedAt = timeNow e 2,
               UserID = None,
               SessionID = None,
               ErrorCode = None,
               ErrorMsg = None \<rparr>)"

definition ProcessStatusUpdate :: "env \<Rightarrow> TwilioWebhookRequest \<Rightarrow> error + MessageStatusUpdate" where
  "ProcessStatusUpdate e webhookData =
     (let status = mapTwilioStatus (toLower e) (SmsStatus webhookData);
          update = \<lparr> MessageSid = TwilioWebhookRequest.MessageSid webhookData,
                     Status = status,
                     ErrorCode = None,
                     ErrorMessage = None,
                     Timestamp = timeNow e 0 \<rparr>;
          update =
            (if TwilioWebhookRequest.ErrorCode webhookData \<noteq> [] then
               update \<lparr> MessageStatusUpdate.ErrorCode :=
                          Some (TwilioWebhookRequest.ErrorCode webhookData),
                        MessageStatusUpdate.ErrorMessage :=
                          Some (TwilioWebhookRequest.ErrorMessage webhookData),
                        MessageStatusUpdate.Status := MessageStatusFailed \<rparr>
             else update)
      in Inr update)"

section \<open>The message service (internal/services/message.go)\<close>

text \<open>
  The state the services share: the table \<^verbatim>\<open>whatsapp_messages\<close> (one record per row,
  in insertion order), the Redis keyspace (key to stored bytes) and the entries the
  logger received at warning or error level.  Durations are in nanoseconds, the unit of
  \<^verbatim>\<open>time.Duration\<close>.
\<close>

datatype level = WarnLevel | ErrorLevel

record world =
  rows :: "WhatsAppMessage list"
  cache :: "string \<Rightarrow> string option"
  logs :: "(level \<times> string) list"

definition logAt :: "level \<Rightarrow> string \<Rightarrow> world \<Rightarrow> world" where
  "logAt l msg w = w \<lparr> logs := logs w @ [(l, msg)] \<rparr>"

definition hour :: time where
  "hour = 3600 * 1000000000"

text \<open>
  \<^verbatim>\<open>redis.Set(ctx, key, value, ttl).Err()\<close> with a \<^verbatim>\<open>*models.WhatsAppMessage\<close> as value:
  the new world and whether \<^verbatim>\<open>err\<close> is nil.  The client (go-redis v8) writes a value that
  is a string, a byte slice, a number, a boolean, a time or an
  \<^verbatim>\<open>encoding.BinaryMarshaler\<close>; the message struct declares no \<^verbatim>\<open>MarshalBinary\<close>, so the
  client returns an error before anything is sent and the keyspace is not written.
\<close>

definition redis_Set :: "string \<Rightarrow> WhatsAppMessage \<Rightarrow> time \<Rightarrow> world \<Rightarrow> world \<times> bool" where
  "redis_Set key v ttl w = (w, False)"


text \<open>
  The \<^verbatim>\<open>INSERT\<close> of \<^verbatim>\<open>StoreMessage\<close>: \<^verbatim>\<open>id\<close> is the primary key and \<^verbatim>\<open>twilio_sid\<close> is
  \<^verbatim>\<open>UNIQUE\<close> in the schema, so a row that repeats either is rejected.
\<close>

definition db_Insert :: "env \<Rightarrow> WhatsAppMessage \<Rightarrow> WhatsAppMessage list \<Rightarrow> WhatsAppMessage list option" where
  "db_Insert e message table =
     (if dbErr e \<or> list_ex (\<lambda>r. ID r = ID message \<or> TwilioSID r = TwilioSID message) table
      then None
      else Some (table @ [message]))"

text \<open>
  The \<^verbatim>\<open>UPDATE ... SET status, error_code, error_message, updated_at WHERE twilio_sid = $1\<close>
  of \<^verbatim>\<open>UpdateMessageStatus\<close>: the new table and the number of rows affected.
\<close>

definition setStatus :: "MessageStatusUpdate \<Rightarrow> WhatsAppMessage \<Rightarrow> WhatsAppMessage" where
  "setStatus u r =
     r \<lparr> WhatsAppMessage.Status := MessageStatusUpdate.Status u,
         WhatsAppMessage.ErrorCode := MessageStatusUpdate.ErrorCode u,
         ErrorMsg := MessageStatusUpdate.ErrorMessage u,
         UpdatedAt := MessageStatusUpdate.Timestamp u \<rparr>"

definition db_UpdateStatus ::
  "env \<Rightarrow> MessageStatusUpdate \<Rightarrow> WhatsAppMessage list \<Rightarrow> (WhatsAppMessage list \<times> nat) option" where
  "db_UpdateStatus e u table =
     (if dbErr e then None
      else Some (map (\<lambda>r. if TwilioSID r = MessageStatusUpdate.MessageSid u
                            then setStatus u r else r) table,
                 length (filter (\<lambda>r. TwilioSID r = MessageStatusUpdate.MessageSid u) table)))"


definition StoreMessage :: "env \<Rightarrow> WhatsAppMessage \<Rightarrow> world \<Rightarrow> world \<times> error option" where
  "StoreMessage e message w =
     (case db_Insert e message (rows w) of
        None \<Rightarrow>
          (logAt ErrorLevel ''Failed to store message in database'' w,
           Some FailedToStoreMessage)
      | Some table \<Rightarrow>
          let w1 = w \<lparr> rows := table \<rparr>;
              cacheKey = ''message:'' @ ID message;
              (w2, ok) = redis_Set cacheKey message (24 * hour) w1;
              w3 = (if ok then w2 else logAt WarnLevel ''Failed to cache message in Redis'' w2)
          in (w3, None))"


text \<open>
  \<^verbatim>\<open>UpdateMessageStatus\<close> issues the \<^verbatim>\<open>UPDATE\<close> and looks at the rows affected.  Under
  its comment \<^verbatim>\<open>// Invalidate cache\<close> the source has no statement.
\<close>

definition UpdateMessageStatus :: "env \<Rightarrow> MessageStatusUpdate \<Rightarrow> world \<Rightarrow> world \<times> error option" where
  "UpdateMessageStatus e statusUpdate w =
     (case db_UpdateStatus e statusUpdate (rows w) of
        None \<Rightarrow>
          (logAt ErrorLevel ''Failed to update message status in database'' w,
           Some FailedToUpdateMessageStatus)
      | Some (table, rowsAffected) \<Rightarrow>
          let w1 = w \<lparr> rows := table \<rparr> in
          if rowsAffected = 0
          then (logAt WarnLevel ''No message found to update'' w1,
                Some MessageNotFoundForStatusUpdate)
          else (w1, None))"

section \<open>The webhook handlers (internal/handlers/whatsapp.go)\<close>

text \<open>
  A response is its HTTP status and the \<^verbatim>\<open>error\<close> member of its JSON body, if it has
  one.  The argument \<open>bound\<close> is what \<^verbatim>\<open>c.ShouldBind\<close> decoded from the form, \<open>None\<close> when
  it returned an error.  The goroutines a handler starts are returned as a list: they
  run after the response and touch neither the table nor the cache.
\<close>

datatype response = Response (code : nat) (errorBody : "string option")

datatype task = ProcessMediaAsync WhatsAppMessage | ForwardToOrchestrator WhatsAppMessage

definition HandleMessage ::
  "env \<Rightarrow> TwilioWebhookRequest option \<Rightarrow> world \<Rightarrow> world \<times> response \<times> task list" where
  "HandleMessage e bound w =
     (case bound of
        None \<Rightarrow>
          (logAt ErrorLevel ''Failed to parse webhook data'' w,
           Response 400 (Some ''Invalid webhook data''), [])
      | Some webhookData \<Rightarrow>
          (case ProcessIncomingMessage e webhookData of
             Inl err \<Rightarrow>
               (logAt ErrorLevel ''Failed to process incoming message'' w,
                Response 500 (Some ''Failed to process message''), [])
           | Inr message \<Rightarrow>
               let (w1, err) = StoreMessage e message w;
                   w2 = (if err \<noteq> None
                         then logAt ErrorLevel ''Failed to store message in database'' w1
                         else w1);
                   media = (if MediaURL message \<noteq> None then [ProcessMediaAsync message] else [])
               in (w2, Response 200 None, media @ [ForwardToOrchestrator message])))"

definition HandleStatus ::
  "env \<Rightarrow> TwilioWebhookRequest option \<Rightarrow> world \<Rightarrow> world \<times> response" where
  "HandleStatus e bound w =
     (case bound of
        None \<Rightarrow>
          (logAt ErrorLevel ''Failed to parse status webhook data'' w,
           Response 400 (Some ''Invalid webhook data''))
      | Some webhookData \<Rightarrow>
          (case ProcessStatusUpdate e webhookData of
             Inl err \<Rightarrow>
               (logAt ErrorLevel ''Failed to process status update'' w,
                Response 500 (Some ''Failed to process status update''))
           | Inr statusUpdate \<Rightarrow>
               let (w1, err) = UpdateMessageStatus e statusUpdate w;
                   w2 = (if err \<noteq> None
                         then logAt ErrorLevel ''Failed to update message status in database'' w1
                         else w1)
               in (w2, Response 200 None)))"

section \<open>Signature middleware (internal/middleware/auth.go)\<close>

text \<open>
  The middleware either lets the request through to the handler (\<^verbatim>\<open>c.Next()\<close>) or
  aborts it with a response.  \<open>signature\<close> is the value of the header
  \<^verbatim>\<open>X-Twilio-Signature\<close>, empty when the header is absent.
\<close>

datatype gate = Next | Abort response

definition WhatsAppSignatureVerification :: "string \<Rightarrow> string \<Rightarrow> gate" where
  "WhatsAppSignatureVerification secret signature =
     (if secret = [] then Next
      else if signature = [] then Abort (Response 401 (Some ''Missing signature''))
      else Next)"

text \<open>
  \<^verbatim>\<open>verifySignature\<close> compares the signature with the hex digest of an HMAC-SHA256 over
  URL and body.  The digest function of \<^verbatim>\<open>crypto/hmac\<close> is the parameter \<open>mac\<close>, from key
  and message to the raw digest bytes.
\<close>

definition verifySignature ::
  "(string \<Rightarrow> string \<Rightarrow> string) \<Rightarrow> string \<Rightarrow> string \<Rightarrow> string \<Rightarrow> string \<Rightarrow> bool" where
  "verifySignature mac signature secret body url =
     (let expectedSignature = hex_EncodeToString (mac secret (url @ body))
      in signature = expectedSignature)"

section \<open>Concrete inputs\<close>

text \<open>
  The inputs at which the results below are evaluated: the webhook of the specification's
  scenario, an outbound record as the send path stores it, status updates for it, an
  environment in which every database round trip succeeds, and one whose database is down.
\<close>

definition exampleId :: uuid where
  "exampleId = ''2f1e4f6a-0c1d-4b7e-9a51-3c5d8e7f9a10''"

definition emptyWebhook :: TwilioWebhookRequest where
  "emptyWebhook =
     \<lparr> TwilioWebhookRequest.MessageSid = [], AccountSid = [], MessagingServiceSid = [], From = [], To = [],
       Body = [], NumMedia = [], MediaContentType0 = [], MediaUrl0 = [], Timestamp = [],
       ApiVersion = [], SmsStatus = [], SmsSid = [], SmsMessageSid = [], ErrorCode = [],
       ErrorMessage = [], ProfileName = [], WaId = [] \<rparr>"

definition webhookSM1 :: TwilioWebhookRequest where
  "webhookSM1 =
     emptyWebhook \<lparr> TwilioWebhookRequest.MessageSid := ''SM1'',
                    TwilioWebhookRequest.From := ''+551199990000'',
                    Body := ''oi'',
                    NumMedia := ''0'' \<rparr>"

definition statusWebhook :: "string \<Rightarrow> string \<Rightarrow> string \<Rightarrow> TwilioWebhookRequest" where
  "statusWebhook sid st ec =
     emptyWebhook \<lparr> TwilioWebhookRequest.MessageSid := sid,
                    SmsStatus := st,
                    TwilioWebhookRequest.ErrorCode := ec \<rparr>"

definition env0 :: env where
  "env0 =
     \<lparr> toLower = ascii_ToLower,
       parseRFC3339 = (\<lambda>s. None),
       uuidParse = (\<lambda>s. if s = exampleId then Some exampleId else None),
       uuidNew = exampleId,
       timeNow = (\<lambda>k. 1000 + int k),
       dbErr = False \<rparr>"

definition envDbDown :: env where
  "envDbDown = env0 \<lparr> dbErr := True \<rparr>"

definition emptyWorld :: world where
  "emptyWorld = \<lparr> rows = [], cache = (\<lambda>k. None), logs = [] \<rparr>"

definition outboundSM1 :: "MessageStatus \<Rightarrow> WhatsAppMessage" where
  "outboundSM1 s =
     \<lparr> ID = exampleId, TwilioSID = ''SM1'', From = ''whatsapp:+14155238886'',
       To = ''+551199990000'', Direction = MessageDirectionOutbound,
       Type = MessageTypeText, Status = s, Content = ''oi'',
       MediaURL = None, MediaType = None, Timestamp = 900, CreatedAt = 900,
       UpdatedAt = 900, UserID = None, SessionID = None, ErrorCode = None,
       ErrorMsg = None \<rparr>"

definition worldSM1 :: "MessageStatus \<Rightarrow> world" where
  "worldSM1 s = \<lparr> rows = [outboundSM1 s], cache = (\<lambda>k. None), logs = [] \<rparr>"

definition updateSM1 :: "MessageStatus \<Rightarrow> MessageStatusUpdate" where
  "updateSM1 s =
     \<lparr> MessageSid = ''SM1'', Status = s, ErrorCode = None, ErrorMessage = None,
       Timestamp = 2000 \<rparr>"



section \<open>The states the service reaches\<close>


section \<open>Results about the helper methods\<close>

lemma HasPrefix_append: "strings_HasPrefix (p @ s) p"
  by (simp add: strings_HasPrefix_def)

lemma HasPrefix_iff: "strings_HasPrefix s p \<longleftrightarrow> (\<exists>t. s = p @ t)"
proof
  assume "strings_HasPrefix s p"
  then have "s = p @ drop (length p) s"
    by (metis append_take_drop_id strings_HasPrefix_def)
  then show "\<exists>t. s = p @ t" ..
next
  assume "\<exists>t. s = p @ t"
  then show "strings_HasPrefix s p"
    by (auto simp: strings_HasPrefix_def)
qed

lemma formatWhatsAppNumber_prefix:
  "strings_HasPrefix (formatWhatsAppNumber x) ''whatsapp:''"
proof (cases "strings_HasPrefix x ''whatsapp:''")
  case True
  then show ?thesis by (simp add: formatWhatsAppNumber_def)
next
  case False
  then show ?thesis
    unfolding formatWhatsAppNumber_def Let_def
    by (simp only: if_False HasPrefix_append)
qed

text \<open>
  Claim C10.  Normalising a destination address twice gives the same result as
  normalising it once, for every input string, and every normalised address starts
  with \<^verbatim>\<open>whatsapp:\<close>.
\<close>

theorem formatWhatsAppNumber_idempotent:
  "formatWhatsAppNumber (formatWhatsAppNumber x) = formatWhatsAppNumber x
   \<and> strings_HasPrefix (formatWhatsAppNumber x) ''whatsapp:''"
proof -
  have p: "strings_HasPrefix (formatWhatsAppNumber x) ''whatsapp:''"
    by (rule formatWhatsAppNumber_prefix)
  have "formatWhatsAppNumber (formatWhatsAppNumber x) = formatWhatsAppNumber x"
    using p by (subst formatWhatsAppNumber_def) (simp only: if_True)
  with p show ?thesis by simp
qed

theorem formatWhatsAppNumber_idempotent_witness:
  "formatWhatsAppNumber ''+55 (11) 9999-0000'' = ''whatsapp:+551199990000''
   \<and> formatWhatsAppNumber (formatWhatsAppNumber ''+55 (11) 9999-0000'') = ''whatsapp:+551199990000''
   \<and> strings_HasPrefix (formatWhatsAppNumber ''+55 (11) 9999-0000'') ''whatsapp:''"
proof -
  have e: "formatWhatsAppNumber ''+55 (11) 9999-0000'' = ''whatsapp:+551199990000''"
    by (simp add: formatWhatsAppNumber_def strings_HasPrefix_def strings_ReplaceAll_def)
  show ?thesis
    using formatWhatsAppNumber_idempotent [of "''+55 (11) 9999-0000''"] by (simp add: e)
qed

text \<open>
  Claim C8.  The message type is derived from the media content type by prefix:
  \<^verbatim>\<open>image/\<close> gives image, \<^verbatim>\<open>video/\<close> gives video, \<^verbatim>\<open>audio/\<close> gives audio,
  \<^verbatim>\<open>application/pdf\<close> or any \<^verbatim>\<open>application/\<close> prefix gives document, and a string with
  none of these prefixes gives text.
\<close>

theorem determineMessageType_by_prefix:
  "(strings_HasPrefix ct ''image/'' \<longrightarrow> determineMessageType ct = MessageTypeImage)
   \<and> (strings_HasPrefix ct ''video/'' \<longrightarrow> determineMessageType ct = MessageTypeVideo)
   \<and> (strings_HasPrefix ct ''audio/'' \<longrightarrow> determineMessageType ct = MessageTypeAudio)
   \<and> (strings_HasPrefix ct ''application/pdf'' \<longrightarrow> determineMessageType ct = MessageTypeDocument)
   \<and> (strings_HasPrefix ct ''application/'' \<longrightarrow> determineMessageType ct = MessageTypeDocument)
   \<and> (\<not> strings_HasPrefix ct ''image/'' \<and> \<not> strings_HasPrefix ct ''video/''
        \<and> \<not> strings_HasPrefix ct ''audio/'' \<and> \<not> strings_HasPrefix ct ''application/''
        \<longrightarrow> determineMessageType ct = MessageTypeText)"
proof -
  have i: "strings_HasPrefix ct ''image/'' \<Longrightarrow> determineMessageType ct = MessageTypeImage"
    by (simp add: determineMessageType_def)
  have v: "strings_HasPrefix ct ''video/'' \<Longrightarrow> determineMessageType ct = MessageTypeVideo"
    by (auto simp: determineMessageType_def HasPrefix_iff)
  have a: "strings_HasPrefix ct ''audio/'' \<Longrightarrow> determineMessageType ct = MessageTypeAudio"
    by (auto simp: determineMessageType_def HasPrefix_iff)
  have d: "strings_HasPrefix ct ''application/'' \<Longrightarrow> determineMessageType ct = MessageTypeDocument"
    by (auto simp: determineMessageType_def HasPrefix_iff)
  have p: "strings_HasPrefix ct ''application/pdf'' \<Longrightarrow> strings_HasPrefix ct ''application/''"
    by (auto simp: HasPrefix_iff)
  have t: "\<not> strings_HasPrefix ct ''image/'' \<Longrightarrow> \<not> strings_HasPrefix ct ''video/''
        \<Longrightarrow> \<not> strings_HasPrefix ct ''audio/'' \<Longrightarrow> \<not> strings_HasPrefix ct ''application/''
        \<Longrightarrow> determineMessageType ct = MessageTypeText"
    using p by (simp add: determineMessageType_def) blast
  from i v a d p t show ?thesis by blast
qed


theorem determineMessageType_by_prefix_witness:
  "determineMessageType ''image/jpeg'' = MessageTypeImage
   \<and> determineMessageType ''video/mp4'' = MessageTypeVideo
   \<and> determineMessageType ''audio/ogg'' = MessageTypeAudio
   \<and> determineMessageType ''application/pdf'' = MessageTypeDocument
   \<and> determineMessageType ''application/zip'' = MessageTypeDocument
   \<and> determineMessageType ''text/x-vcard'' = MessageTypeText"
  using determineMessageType_by_prefix [of "''image/jpeg''"]
    determineMessageType_by_prefix [of "''video/mp4''"]
    determineMessageType_by_prefix [of "''audio/ogg''"]
    determineMessageType_by_prefix [of "''application/pdf''"]
    determineMessageType_by_prefix [of "''application/zip''"]
    determineMessageType_by_prefix [of "''text/x-vcard''"]
  by (simp add: strings_HasPrefix_def)

section \<open>Results about inbound normalisation\<close>

lemma ProcessStatusUpdate_total: "\<exists>u. ProcessStatusUpdate e wd = Inr u"
  by (simp add: ProcessStatusUpdate_def Let_def)

lemma ProcessStatusUpdate_MessageSid:
  "ProcessStatusUpdate e wd = Inr u \<Longrightarrow>
   MessageStatusUpdate.MessageSid u = TwilioWebhookRequest.MessageSid wd"
  by (auto simp: ProcessStatusUpdate_def Let_def split: if_splits)

text \<open>
  Claim C7.  A provider status string that is none of the seven mapped words (after
  lower-casing) maps to \<^verbatim>\<open>pending\<close>; processing a status webhook never returns an
  error; and when the webhook carries a non-empty error code the status of the resulting
  update is \<^verbatim>\<open>failed\<close>, whatever provider status was reported.  Without an error code
  the update carries the mapped status.
\<close>

theorem status_mapping_default_and_error_code:
  "(toLower e (SmsStatus wd) \<notin> {''queued'', ''accepted'', ''sent'', ''delivered'', ''read'',
                                  ''failed'', ''undelivered''}
      \<longrightarrow> mapTwilioStatus (toLower e) (SmsStatus wd) = MessageStatusPending)
   \<and> (\<exists>u. ProcessStatusUpdate e wd = Inr u
          \<and> (TwilioWebhookRequest.ErrorCode wd \<noteq> []
               \<longrightarrow> MessageStatusUpdate.Status u = MessageStatusFailed)
          \<and> (TwilioWebhookRequest.ErrorCode wd = []
               \<longrightarrow> MessageStatusUpdate.Status u
                     = mapTwilioStatus (toLower e) (SmsStatus wd)))"
proof -
  have m: "toLower e (SmsStatus wd) \<notin> {''queued'', ''accepted'', ''sent'', ''delivered'',
             ''read'', ''failed'', ''undelivered''}
           \<Longrightarrow> mapTwilioStatus (toLower e) (SmsStatus wd) = MessageStatusPending"
    by (simp add: mapTwilioStatus_def Let_def)
  have p: "\<exists>u. ProcessStatusUpdate e wd = Inr u
          \<and> (TwilioWebhookRequest.ErrorCode wd \<noteq> []
               \<longrightarrow> MessageStatusUpdate.Status u = MessageStatusFailed)
          \<and> (TwilioWebhookRequest.ErrorCode wd = []
               \<longrightarrow> MessageStatusUpdate.Status u
                     = mapTwilioStatus (toLower e) (SmsStatus wd))"
    by (simp add: ProcessStatusUpdate_def Let_def)
  from m p show ?thesis by blast
qed

theorem status_mapping_default_and_error_code_witness:
  "mapTwilioStatus ascii_ToLower ''Bogus'' = MessageStatusPending
   \<and> map_sum id MessageStatusUpdate.Status
        (ProcessStatusUpdate env0 (statusWebhook ''SM1'' ''Bogus'' [])) = Inr MessageStatusPending
   \<and> map_sum id MessageStatusUpdate.Status
        (ProcessStatusUpdate env0 (statusWebhook ''SM1'' ''delivered'' ''30008''))
      = Inr MessageStatusFailed"
proof -
  have l: "ascii_ToLower ''Bogus'' = ''bogus''"
    by code_simp
  have a: "toLower env0 (SmsStatus (statusWebhook ''SM1'' ''Bogus'' [])) = ''bogus''"
    by (simp add: env0_def statusWebhook_def emptyWebhook_def l)
  have b: "TwilioWebhookRequest.ErrorCode (statusWebhook ''SM1'' ''Bogus'' []) = []"
    by (simp add: statusWebhook_def emptyWebhook_def)
  have c: "TwilioWebhookRequest.ErrorCode (statusWebhook ''SM1'' ''delivered'' ''30008'') \<noteq> []"
    by (simp add: statusWebhook_def emptyWebhook_def)
  have d: "toLower env0 = ascii_ToLower" "SmsStatus (statusWebhook ''SM1'' ''Bogus'' []) = ''Bogus''"
    by (simp_all add: env0_def statusWebhook_def emptyWebhook_def)
  show ?thesis
    using status_mapping_default_and_error_code [of env0 "statusWebhook ''SM1'' ''Bogus'' []"]
      status_mapping_default_and_error_code [of env0 "statusWebhook ''SM1'' ''delivered'' ''30008''"]
      a b c
    by (auto simp: d l)
qed

lemma Atoi_zero: "strconv_Atoi ''0'' = Some 0"
  by (simp add: strconv_Atoi_def isDigit_def digitsValue_def)

text \<open>
  Claim C9.  The message built from an inbound webhook has direction \<^verbatim>\<open>inbound\<close>,
  status \<^verbatim>\<open>delivered\<close> and the webhook body as content; with \<^verbatim>\<open>NumMedia\<close> equal to
  \<^verbatim>\<open>"0"\<close> its type is \<^verbatim>\<open>text\<close> and it has no media reference; and when the event
  timestamp is absent or does not parse, the message timestamp is the clock reading
  taken at ingestion.
\<close>

theorem ProcessIncomingMessage_text_message:
  "\<exists>m. ProcessIncomingMessage e wd = Inr m
     \<and> Direction m = MessageDirectionInbound
     \<and> WhatsAppMessage.Status m = MessageStatusDelivered
     \<and> Content m = Body wd
     \<and> TwilioSID m = TwilioWebhookRequest.MessageSid wd
     \<and> (NumMedia wd = ''0'' \<longrightarrow> Type m = MessageTypeText \<and> MediaURL m = None)
     \<and> (TwilioWebhookRequest.Timestamp wd = []
          \<or> parseRFC3339 e (TwilioWebhookRequest.Timestamp wd) = None
         \<longrightarrow> WhatsAppMessage.Timestamp m = timeNow e 0)"
  by (auto simp: ProcessIncomingMessage_def Let_def Atoi_zero)

theorem ProcessIncomingMessage_text_message_witness:
  "NumMedia webhookSM1 = ''0'' \<and> TwilioWebhookRequest.Timestamp webhookSM1 = []
   \<and> (\<exists>m. ProcessIncomingMessage env0 webhookSM1 = Inr m
        \<and> Direction m = MessageDirectionInbound
        \<and> WhatsAppMessage.Status m = MessageStatusDelivered
        \<and> Content m = ''oi''
        \<and> TwilioSID m = ''SM1''
        \<and> Type m = MessageTypeText
        \<and> MediaURL m = None
        \<and> WhatsAppMessage.Timestamp m = 1000)"
proof -
  have a: "NumMedia webhookSM1 = ''0''" "TwilioWebhookRequest.Timestamp webhookSM1 = []"
    "Body webhookSM1 = ''oi''" "TwilioWebhookRequest.MessageSid webhookSM1 = ''SM1''"
    by (simp_all add: webhookSM1_def emptyWebhook_def)
  have b: "timeNow env0 0 = 1000"
    by (simp add: env0_def)
  show ?thesis
    using ProcessIncomingMessage_text_message [of env0 webhookSM1]
    by (simp add: a b)
qed


section \<open>Results about status updates in the store\<close>

lemma setStatus_TwilioSID: "TwilioSID (setStatus u r) = TwilioSID r"
  by (simp add: setStatus_def)

lemma setStatus_twice: "setStatus u (setStatus u r) = setStatus u r"
  by (simp add: setStatus_def)

lemma affected_after_update:
  "filter (\<lambda>r. TwilioSID r = s) (map (\<lambda>r. if TwilioSID r = s then setStatus u r else r) table)
   = map (setStatus u) (filter (\<lambda>r. TwilioSID r = s) table)"
  by (induction table) (simp_all add: setStatus_TwilioSID)

lemma update_twice:
  "map (\<lambda>r. if TwilioSID r = s then setStatus u r else r)
     (map (\<lambda>r. if TwilioSID r = s then setStatus u r else r) table)
   = map (\<lambda>r. if TwilioSID r = s then setStatus u r else r) table"
  by (induction table) (simp_all add: setStatus_TwilioSID setStatus_twice)

lemma update_no_match:
  "\<not> list_ex (\<lambda>r. TwilioSID r = s) table \<Longrightarrow>
   map (\<lambda>r. if TwilioSID r = s then setStatus u r else r) table = table
   \<and> filter (\<lambda>r. TwilioSID r = s) table = []"
  by (induction table) simp_all

lemma update_other_rows:
  "filter (\<lambda>r. TwilioSID r \<noteq> s) (map (\<lambda>r. if TwilioSID r = s then setStatus u r else r) table)
   = filter (\<lambda>r. TwilioSID r \<noteq> s) table"
  by (induction table) (simp_all add: setStatus_TwilioSID)

lemma UpdateMessageStatus_rows:
  "\<not> dbErr e \<Longrightarrow>
   rows (fst (UpdateMessageStatus e u w))
   = map (\<lambda>r. if TwilioSID r = MessageStatusUpdate.MessageSid u then setStatus u r else r) (rows w)"
  by (simp add: UpdateMessageStatus_def db_UpdateStatus_def Let_def logAt_def)

lemma UpdateMessageStatus_down:
  "dbErr e \<Longrightarrow>
   UpdateMessageStatus e u w
   = (logAt ErrorLevel ''Failed to update message status in database'' w,
      Some FailedToUpdateMessageStatus)"
  by (simp add: UpdateMessageStatus_def db_UpdateStatus_def)

lemma UpdateMessageStatus_cache: "cache (fst (UpdateMessageStatus e u w)) = cache w"
  by (simp add: UpdateMessageStatus_def db_UpdateStatus_def Let_def logAt_def)

lemma UpdateMessageStatus_result:
  "\<not> dbErr e \<Longrightarrow>
   snd (UpdateMessageStatus e u w)
   = (if filter (\<lambda>r. TwilioSID r = MessageStatusUpdate.MessageSid u) (rows w) = []
      then Some MessageNotFoundForStatusUpdate else None)"
  by (simp add: UpdateMessageStatus_def db_UpdateStatus_def Let_def)

lemma UpdateMessageStatus_found:
  assumes "\<not> dbErr e"
    and "filter (\<lambda>r. TwilioSID r = MessageStatusUpdate.MessageSid u) (rows w) \<noteq> []"
  shows "UpdateMessageStatus e u w
         = (w \<lparr> rows := map (\<lambda>r. if TwilioSID r = MessageStatusUpdate.MessageSid u
                                   then setStatus u r else r) (rows w) \<rparr>, None)"
  using assms by (simp add: UpdateMessageStatus_def db_UpdateStatus_def Let_def)

text \<open>
  Claim C1, as stated, fails: the stored status of message \<^verbatim>\<open>SM1\<close> is \<^verbatim>\<open>read\<close>, a
  terminal status, and an update carrying \<^verbatim>\<open>sent\<close> (not terminal, and ordinally behind)
  is applied without error and leaves \<^verbatim>\<open>sent\<close> in the table.
\<close>

theorem UpdateMessageStatus_terminal_counterexample:
  "map WhatsAppMessage.Status (rows (worldSM1 MessageStatusRead)) = [MessageStatusRead]
   \<and> snd (UpdateMessageStatus env0 (updateSM1 MessageStatusSent) (worldSM1 MessageStatusRead))
       = None
   \<and> map WhatsAppMessage.Status
        (rows (fst (UpdateMessageStatus env0 (updateSM1 MessageStatusSent)
                      (worldSM1 MessageStatusRead))))
       = [MessageStatusSent]"
  by (simp add: UpdateMessageStatus_def db_UpdateStatus_def Let_def setStatus_def
      worldSM1_def updateSM1_def outboundSM1_def env0_def)

text \<open>
  Claim C1, amended.  When the database executes the statement, applying a status update
  to a stored message with the update's provider message id succeeds and overwrites that
  row's status, error code, error message and last-update time with the update's values,
  whatever status the row had; the row's other fields, the rows of other provider message
  ids and the number of rows stay as they were.
\<close>

theorem UpdateMessageStatus_overwrites:
  assumes "\<not> dbErr e"
    and "k < length (rows w)"
    and "TwilioSID (rows w ! k) = MessageStatusUpdate.MessageSid u"
  shows "snd (UpdateMessageStatus e u w) = None
    \<and> length (rows (fst (UpdateMessageStatus e u w))) = length (rows w)
    \<and> rows (fst (UpdateMessageStatus e u w)) ! k
        = (rows w ! k) \<lparr> WhatsAppMessage.Status := MessageStatusUpdate.Status u,
                         WhatsAppMessage.ErrorCode := MessageStatusUpdate.ErrorCode u,
                         ErrorMsg := MessageStatusUpdate.ErrorMessage u,
                         UpdatedAt := MessageStatusUpdate.Timestamp u \<rparr>
    \<and> filter (\<lambda>r. TwilioSID r \<noteq> MessageStatusUpdate.MessageSid u)
          (rows (fst (UpdateMessageStatus e u w)))
        = filter (\<lambda>r. TwilioSID r \<noteq> MessageStatusUpdate.MessageSid u) (rows w)"
proof -
  let ?s = "MessageStatusUpdate.MessageSid u"
  have "rows w ! k \<in> set (rows w)"
    using assms(2) by simp
  then have ne: "filter (\<lambda>r. TwilioSID r = ?s) (rows w) \<noteq> []"
    using assms(3) by (auto simp: filter_empty_conv)
  have r: "rows (fst (UpdateMessageStatus e u w))
           = map (\<lambda>r. if TwilioSID r = ?s then setStatus u r else r) (rows w)"
    using assms(1) by (rule UpdateMessageStatus_rows)
  have 1: "snd (UpdateMessageStatus e u w) = None"
    using assms(1) ne by (simp add: UpdateMessageStatus_result)
  have 2: "length (rows (fst (UpdateMessageStatus e u w))) = length (rows w)"
    by (simp add: r)
  have 3: "rows (fst (UpdateMessageStatus e u w)) ! k = setStatus u (rows w ! k)"
    using assms(2,3) by (simp add: r)
  have 4: "filter (\<lambda>r. TwilioSID r \<noteq> ?s) (rows (fst (UpdateMessageStatus e u w)))
           = filter (\<lambda>r. TwilioSID r \<noteq> ?s) (rows w)"
    by (simp only: r update_other_rows)
  from 1 2 3 4 show ?thesis
    by (simp add: setStatus_def)
qed

theorem UpdateMessageStatus_overwrites_witness:
  "snd (UpdateMessageStatus env0 (updateSM1 MessageStatusSent) (worldSM1 MessageStatusDelivered))
     = None
   \<and> rows (fst (UpdateMessageStatus env0 (updateSM1 MessageStatusSent)
                  (worldSM1 MessageStatusDelivered)))
     = [(outboundSM1 MessageStatusSent) \<lparr> UpdatedAt := 2000 \<rparr>]"
proof -
  have a: "\<not> dbErr env0"
    by (simp add: env0_def)
  have b: "0 < length (rows (worldSM1 MessageStatusDelivered))"
    by (simp add: worldSM1_def)
  have c: "TwilioSID (rows (worldSM1 MessageStatusDelivered) ! 0)
           = MessageStatusUpdate.MessageSid (updateSM1 MessageStatusSent)"
    by (simp add: worldSM1_def outboundSM1_def updateSM1_def)
  have d: "rows (worldSM1 MessageStatusDelivered) = [outboundSM1 MessageStatusDelivered]"
    by (simp add: worldSM1_def)
  have l: "\<And>xs y. length xs = Suc 0 \<Longrightarrow> xs ! 0 = y \<Longrightarrow> xs = [y]"
    by (metis length_0_conv length_Suc_conv nth_Cons_0)
  from UpdateMessageStatus_overwrites [OF a b c]
  show ?thesis
    by (auto simp: d updateSM1_def outboundSM1_def intro!: l)
qed

text \<open>
  Claim C2.  When the database executes both statements, applying the same status update
  a second time leaves the table, the cache and the returned error as the first
  application left them; when a record with the provider message id exists, the whole
  state after the second application equals the state after the first.
\<close>

theorem UpdateMessageStatus_idempotent:
  assumes "\<not> dbErr e1" and "\<not> dbErr e2"
  shows "rows (fst (UpdateMessageStatus e2 u (fst (UpdateMessageStatus e1 u w))))
           = rows (fst (UpdateMessageStatus e1 u w))
    \<and> cache (fst (UpdateMessageStatus e2 u (fst (UpdateMessageStatus e1 u w))))
           = cache (fst (UpdateMessageStatus e1 u w))
    \<and> snd (UpdateMessageStatus e2 u (fst (UpdateMessageStatus e1 u w)))
           = snd (UpdateMessageStatus e1 u w)
    \<and> (list_ex (\<lambda>r. TwilioSID r = MessageStatusUpdate.MessageSid u) (rows w)
         \<longrightarrow> UpdateMessageStatus e2 u (fst (UpdateMessageStatus e1 u w))
               = UpdateMessageStatus e1 u w)"
proof -
  let ?s = "MessageStatusUpdate.MessageSid u"
  let ?f = "\<lambda>r. if TwilioSID r = ?s then setStatus u r else r"
  let ?w1 = "fst (UpdateMessageStatus e1 u w)"
  have r1: "rows ?w1 = map ?f (rows w)"
    using assms(1) by (rule UpdateMessageStatus_rows)
  have r2: "rows (fst (UpdateMessageStatus e2 u ?w1)) = map ?f (rows ?w1)"
    using assms(2) by (rule UpdateMessageStatus_rows)
  have 1: "rows (fst (UpdateMessageStatus e2 u ?w1)) = rows ?w1"
    by (simp only: r2 r1 update_twice)
  have 2: "cache (fst (UpdateMessageStatus e2 u ?w1)) = cache ?w1"
    by (rule UpdateMessageStatus_cache)
  have n: "(filter (\<lambda>r. TwilioSID r = ?s) (rows ?w1) = [])
           = (filter (\<lambda>r. TwilioSID r = ?s) (rows w) = [])"
    by (simp only: r1 affected_after_update map_is_Nil_conv)
  have 3: "snd (UpdateMessageStatus e2 u ?w1) = snd (UpdateMessageStatus e1 u w)"
    by (simp only: UpdateMessageStatus_result [OF assms(1)]
        UpdateMessageStatus_result [OF assms(2)] n)
  have 4: "UpdateMessageStatus e2 u ?w1 = UpdateMessageStatus e1 u w"
    if ex: "list_ex (\<lambda>r. TwilioSID r = ?s) (rows w)"
  proof -
    have ne: "filter (\<lambda>r. TwilioSID r = ?s) (rows w) \<noteq> []"
      using ex by (auto simp: filter_empty_conv list_ex_iff)
    have f1: "UpdateMessageStatus e1 u w = (w \<lparr> rows := map ?f (rows w) \<rparr>, None)"
      using assms(1) ne by (rule UpdateMessageStatus_found)
    have ne1: "filter (\<lambda>r. TwilioSID r = ?s) (rows ?w1) \<noteq> []"
      using ne n by simp
    have f2: "UpdateMessageStatus e2 u ?w1 = (?w1 \<lparr> rows := map ?f (rows ?w1) \<rparr>, None)"
      using assms(2) ne1 by (rule UpdateMessageStatus_found)
    have w1: "?w1 = w \<lparr> rows := map ?f (rows w) \<rparr>"
      by (simp add: f1)
    have "UpdateMessageStatus e2 u ?w1 = (?w1 \<lparr> rows := map ?f (rows w) \<rparr>, None)"
      by (simp only: f2 r1 update_twice)
    also have "\<dots> = (w \<lparr> rows := map ?f (rows w) \<rparr>, None)"
      by (simp add: w1)
    finally show ?thesis
      by (simp only: f1)
  qed
  from 1 2 3 4 show ?thesis by blast
qed

theorem UpdateMessageStatus_idempotent_witness:
  "list_ex (\<lambda>r. TwilioSID r = MessageStatusUpdate.MessageSid (updateSM1 MessageStatusDelivered))
     (rows (worldSM1 MessageStatusSent))
   \<and> UpdateMessageStatus env0 (updateSM1 MessageStatusDelivered)
        (fst (UpdateMessageStatus env0 (updateSM1 MessageStatusDelivered)
               (worldSM1 MessageStatusSent)))
     = UpdateMessageStatus env0 (updateSM1 MessageStatusDelivered) (worldSM1 MessageStatusSent)
   \<and> map WhatsAppMessage.Status
        (rows (fst (UpdateMessageStatus env0 (updateSM1 MessageStatusDelivered)
                      (worldSM1 MessageStatusSent))))
     = [MessageStatusDelivered]"
proof -
  have a: "\<not> dbErr env0"
    by (simp add: env0_def)
  have b: "list_ex (\<lambda>r. TwilioSID r
                         = MessageStatusUpdate.MessageSid (updateSM1 MessageStatusDelivered))
             (rows (worldSM1 MessageStatusSent))"
    by (simp add: worldSM1_def outboundSM1_def updateSM1_def)
  have c: "map WhatsAppMessage.Status
             (rows (fst (UpdateMessageStatus env0 (updateSM1 MessageStatusDelivered)
                           (worldSM1 MessageStatusSent))))
           = [MessageStatusDelivered]"
    by (simp add: UpdateMessageStatus_rows [OF a] worldSM1_def outboundSM1_def updateSM1_def
        setStatus_def)
  from UpdateMessageStatus_idempotent [OF a a, of "updateSM1 MessageStatusDelivered"
      "worldSM1 MessageStatusSent"] b c
  show ?thesis by blast
qed


section \<open>Results about the webhook handlers\<close>

lemma ProcessIncomingMessage_total: "\<exists>m. ProcessIncomingMessage e wd = Inr m"
  by (simp add: ProcessIncomingMessage_def Let_def)

lemma HandleStatus_down:
  "dbErr e \<Longrightarrow>
   HandleStatus e (Some wd) w
   = (logAt ErrorLevel ''Failed to update message status in database''
        (logAt ErrorLevel ''Failed to update message status in database'' w),
      Response 200 None)"
  using ProcessStatusUpdate_total [of e wd]
  by (auto simp: HandleStatus_def UpdateMessageStatus_down)

text \<open>
  Claim C4.  When no stored record has the provider message id of a status webhook, the
  handler answers HTTP 200 without an error body, the table and the cache are unchanged,
  and, when the database executed the statement, the only trace is two log entries:
  the warning that no message was found and the handler's error-level entry.
\<close>

theorem HandleStatus_unknown_message:
  assumes "\<not> list_ex (\<lambda>r. TwilioSID r = TwilioWebhookRequest.MessageSid wd) (rows w)"
  shows "snd (HandleStatus e (Some wd) w) = Response 200 None
    \<and> rows (fst (HandleStatus e (Some wd) w)) = rows w
    \<and> cache (fst (HandleStatus e (Some wd) w)) = cache w
    \<and> (\<not> dbErr e \<longrightarrow>
         logs (fst (HandleStatus e (Some wd) w))
         = logs w @ [(WarnLevel, ''No message found to update''),
                     (ErrorLevel, ''Failed to update message status in database'')])"
proof (cases "dbErr e")
  case True
  then show ?thesis
    by (simp add: HandleStatus_down logAt_def)
next
  case False
  obtain u where u: "ProcessStatusUpdate e wd = Inr u"
    using ProcessStatusUpdate_total by blast
  have sid: "MessageStatusUpdate.MessageSid u = TwilioWebhookRequest.MessageSid wd"
    using u by (rule ProcessStatusUpdate_MessageSid)
  have n: "map (\<lambda>r. if TwilioSID r = MessageStatusUpdate.MessageSid u then setStatus u r else r)
             (rows w) = rows w
           \<and> filter (\<lambda>r. TwilioSID r = MessageStatusUpdate.MessageSid u) (rows w) = []"
    using assms unfolding sid by (rule update_no_match)
  have "UpdateMessageStatus e u w
        = (logAt WarnLevel ''No message found to update'' w,
           Some MessageNotFoundForStatusUpdate)"
    using False n by (simp add: UpdateMessageStatus_def db_UpdateStatus_def Let_def)
  then show ?thesis
    by (simp add: HandleStatus_def u logAt_def)
qed

theorem HandleStatus_unknown_message_witness:
  "HandleStatus env0 (Some (statusWebhook ''SM404'' ''delivered'' []))
     (worldSM1 MessageStatusSent)
   = (worldSM1 MessageStatusSent
        \<lparr> logs := [(WarnLevel, ''No message found to update''),
                   (ErrorLevel, ''Failed to update message status in database'')] \<rparr>,
      Response 200 None)"
proof -
  let ?wd = "statusWebhook ''SM404'' ''delivered'' []"
  let ?w = "worldSM1 MessageStatusSent"
  have a: "\<not> list_ex (\<lambda>r. TwilioSID r = TwilioWebhookRequest.MessageSid ?wd) (rows ?w)"
    by (simp add: statusWebhook_def emptyWebhook_def worldSM1_def outboundSM1_def)
  have e: "\<not> dbErr env0"
    by (simp add: env0_def)
  have l: "logs ?w = []"
    by (simp add: worldSM1_def)
  have "fst (HandleStatus env0 (Some ?wd) ?w)
        = ?w \<lparr> logs := [(WarnLevel, ''No message found to update''),
                        (ErrorLevel, ''Failed to update message status in database'')] \<rparr>"
    using HandleStatus_unknown_message [OF a, of env0] e l
    by (cases "fst (HandleStatus env0 (Some ?wd) ?w)") (simp add: worldSM1_def)
  moreover have "snd (HandleStatus env0 (Some ?wd) ?w) = Response 200 None"
    using HandleStatus_unknown_message [OF a, of env0] by simp
  ultimately show ?thesis
    by (simp add: prod_eq_iff)
qed

text \<open>
  Claim C5, as stated, fails: the database is down, the webhook of the scenario parses,
  the write of the new message fails, and the handler still answers HTTP 200.
\<close>

theorem HandleMessage_store_failure_counterexample:
  "dbErr envDbDown
   \<and> snd (StoreMessage envDbDown
            (projr (ProcessIncomingMessage envDbDown webhookSM1)) emptyWorld)
       = Some FailedToStoreMessage
   \<and> fst (snd (HandleMessage envDbDown (Some webhookSM1) emptyWorld)) = Response 200 None
   \<and> rows (fst (HandleMessage envDbDown (Some webhookSM1) emptyWorld)) = []"
  by (simp add: HandleMessage_def ProcessIncomingMessage_def StoreMessage_def db_Insert_def
      Let_def logAt_def envDbDown_def env0_def emptyWorld_def)

text \<open>
  Claim C5, amended.  For every inbound message webhook that parses, if the write of the
  new message to the store fails, the failure is logged at error level (by the service
  and by the handler), no row and no cache entry is written, and the provider receives
  HTTP 200; a status webhook whose database statement fails is acknowledged with HTTP 200
  in the same way.
\<close>

theorem HandleMessage_store_failure_acknowledged:
  assumes "ProcessIncomingMessage e wd = Inr m"
    and "snd (StoreMessage e m w) \<noteq> None"
  shows "fst (snd (HandleMessage e (Some wd) w)) = Response 200 None
    \<and> rows (fst (HandleMessage e (Some wd) w)) = rows w
    \<and> cache (fst (HandleMessage e (Some wd) w)) = cache w
    \<and> logs (fst (HandleMessage e (Some wd) w))
        = logs w @ [(ErrorLevel, ''Failed to store message in database''),
                    (ErrorLevel, ''Failed to store message in database'')]
    \<and> (dbErr e \<longrightarrow> snd (HandleStatus e (Some wd) w) = Response 200 None
                     \<and> rows (fst (HandleStatus e (Some wd) w)) = rows w)"
proof -
  have f: "StoreMessage e m w
           = (logAt ErrorLevel ''Failed to store message in database'' w,
              Some FailedToStoreMessage)"
    using assms(2)
    by (auto simp: StoreMessage_def Let_def split: option.splits prod.splits)
  have h: "HandleMessage e (Some wd) w
           = (logAt ErrorLevel ''Failed to store message in database''
                (logAt ErrorLevel ''Failed to store message in database'' w),
              Response 200 None,
              (if MediaURL m \<noteq> None then [ProcessMediaAsync m] else [])
                @ [ForwardToOrchestrator m])"
    by (simp add: HandleMessage_def assms(1) f Let_def)
  have s: "dbErr e \<Longrightarrow> snd (HandleStatus e (Some wd) w) = Response 200 None
                     \<and> rows (fst (HandleStatus e (Some wd) w)) = rows w"
    by (simp add: HandleStatus_down logAt_def)
  from s show ?thesis
    by (simp add: h logAt_def)
qed

theorem HandleMessage_store_failure_acknowledged_witness:
  "dbErr envDbDown
   \<and> fst (snd (HandleMessage envDbDown (Some webhookSM1) emptyWorld)) = Response 200 None
   \<and> rows (fst (HandleMessage envDbDown (Some webhookSM1) emptyWorld)) = []
   \<and> logs (fst (HandleMessage envDbDown (Some webhookSM1) emptyWorld))
       = [(ErrorLevel, ''Failed to store message in database''),
          (ErrorLevel, ''Failed to store message in database'')]
   \<and> snd (HandleStatus envDbDown (Some webhookSM1) emptyWorld) = Response 200 None"
proof -
  obtain m where m: "ProcessIncomingMessage envDbDown webhookSM1 = Inr m"
    using ProcessIncomingMessage_total by blast
  have d: "dbErr envDbDown"
    by (simp add: envDbDown_def)
  have f: "snd (StoreMessage envDbDown m emptyWorld) \<noteq> None"
    using d by (simp add: StoreMessage_def db_Insert_def)
  from HandleMessage_store_failure_acknowledged [OF m f] d
  show ?thesis
    by (simp add: emptyWorld_def)
qed

section \<open>Results about lookups after a status update\<close>














section \<open>Results about the signature middleware\<close>

lemma hextable_nth: "i < 16 \<Longrightarrow> hextable ! i \<in> set hextable"
  by (rule nth_mem) (simp add: hextable_def)

lemma hex_EncodeToString_chars: "set (hex_EncodeToString src) \<subseteq> set hextable"
proof -
  have "(of_char v :: nat) div 16 < 16" for v :: char
    by (rule less_mult_imp_div_less) simp
  moreover have "(of_char v :: nat) mod 16 < 16" for v :: char
    by simp
  ultimately show ?thesis
    unfolding hex_EncodeToString_def by (auto intro: hextable_nth)
qed

lemma signature_lets_through:
  "secret \<noteq> [] \<Longrightarrow> signature \<noteq> [] \<Longrightarrow> WhatsAppSignatureVerification secret signature = Next"
  by (simp add: WhatsAppSignatureVerification_def)

text \<open>
  Claim C6 at a concrete input.  With the secret \<^verbatim>\<open>s3cret\<close> configured, a request whose
  signature header is \<^verbatim>\<open>invalid!\<close> is let through to the handler, although that string is
  the expected signature of no request, whatever digest function, body and URL: a hex
  digest has no character \<^verbatim>\<open>i\<close>.  A request without the header is aborted with 401, and
  without a configured secret every request is let through.
\<close>

theorem invalid_signature_is_let_through:
  "WhatsAppSignatureVerification ''s3cret'' ''invalid!'' = Next
   \<and> (\<forall>mac body url. \<not> verifySignature mac ''invalid!'' ''s3cret'' body url)
   \<and> WhatsAppSignatureVerification ''s3cret'' [] = Abort (Response 401 (Some ''Missing signature''))
   \<and> WhatsAppSignatureVerification [] ''invalid!'' = Next"
proof -
  have ni: "CHR ''i'' \<notin> set hextable"
    by (simp add: hextable_def)
  have "''invalid!'' \<noteq> hex_EncodeToString src" for src
  proof
    assume a: "''invalid!'' = hex_EncodeToString src"
    have "CHR ''i'' \<in> set ''invalid!''"
      by simp
    then have "CHR ''i'' \<in> set (hex_EncodeToString src)"
      by (simp only: a)
    with hex_EncodeToString_chars [of src] ni show False
      by blast
  qed
  then have "\<not> verifySignature mac ''invalid!'' ''s3cret'' body url" for mac body url
    by (simp add: verifySignature_def Let_def)
  then show ?thesis
    by (simp add: WhatsAppSignatureVerification_def)
qed

end
